theory Spec2Isabelle
  imports Main
begin

section \<open>Faults\<close>

text \<open>
  Modelled from the spec: the module \<open>infra_validation_engine.core.exceptions\<close>, which
  declares \<open>PreConditionNotSatisfiedError\<close> and \<open>DirectoryNotFoundError\<close>, is not part of
  the source at hand. The spec distinguishes the designated "precondition not satisfied"
  fault from every other fault kind; both are ordinary exceptions (subclasses of
  \<open>Exception\<close>), which is what \<open>except Exception\<close> in the source catches.

  A raised exception carries its class, its \<open>message\<close> attribute and the text that
  \<open>traceback.format_exc()\<close> renders for it inside the handler.
\<close>

datatype exn_class = PreConditionNotSatisfiedError | DirectoryNotFoundError | OtherException

datatype exn = Exn (ex_class: exn_class) (ex_message: string) (ex_traceback: string)

definition format_exc :: "exn \<Rightarrow> string" where
  "format_exc ex = ex_traceback ex"


section \<open>Checks: class \<open>InfraTest\<close>\<close>

text \<open>
  The report of a check is a Python dict from strings to strings. The report of an
  executor also holds, under the key \<open>reports\<close>, the list of the reports of its checks.
\<close>

type_synonym report = "string \<rightharpoonup> string"

datatype json = Str string | Reports "report list"

type_synonym group_report = "string \<rightharpoonup> json"

record infra_test =
  host :: string
  name :: string
  description :: string
  fqdn :: string
  rc :: int
  err :: "string option"
  out :: "string option"
  message :: "string option"
  warn :: bool
  report :: report
  exit_code :: int

definition InfraTest_init :: "string \<Rightarrow> string \<Rightarrow> string \<Rightarrow> string \<Rightarrow> infra_test" where
  "InfraTest_init n d h f =
     \<lparr>host = h, name = n, description = d, fqdn = f, rc = - 1, err = None, out = None,
      message = None, warn = False,
      report = [''name'' \<mapsto> n, ''description'' \<mapsto> d, ''result'' \<mapsto> ''fail''],
      exit_code = 0\<rparr>"

text \<open>
  \<open>run\<close> and \<open>fail\<close> are abstract methods: a concrete check supplies them. Each receives the
  object, may assign any of its attributes, and either returns or raises; what it assigned
  before raising stays assigned. \<open>Inl\<close> is a raised exception. A method reads and assigns
  only the object it is called on: a check holds no reference to its group or to another
  check.
\<close>

record methods =
  run :: "infra_test \<Rightarrow> (exn + bool) \<times> infra_test"
  fail :: "infra_test \<Rightarrow> (exn + unit) \<times> infra_test"

record check =
  cls :: methods
  obj :: infra_test

text \<open>
  The calls of the abstract methods made during an execution, in order. A call of a check's
  method is recorded with the name the check has when the call is made.
\<close>

datatype call = PreConditionCalled | RunCalled string | FailCalled string

text \<open>
  \<open>InfraTest.execute\<close>. Logging does not change the object and does not raise; it is left
  out. The result is the object after the call and the calls made; no exception leaves the
  method, since both handlers catch \<open>Exception\<close>.
\<close>

definition InfraTest_execute :: "methods \<Rightarrow> infra_test \<Rightarrow> infra_test \<times> call list" where
  "InfraTest_execute m t =
     (let (r, t1) = run m t;
          (t2, calls) =
            (case r of
               Inr True \<Rightarrow>
                 (let t1a = (if warn t1 then t1\<lparr>exit_code := 3\<rparr> else t1)
                  in (t1a\<lparr>report := (report t1a)(''result'' \<mapsto> ''pass'')\<rparr>,
                      [RunCalled (name t)]))
             | Inr False \<Rightarrow>
                 (let t1a = t1\<lparr>exit_code := 1\<rparr>;
                      (f, t1b) = fail m t1a
                  in (case f of
                        Inr _ \<Rightarrow> (t1b, [RunCalled (name t), FailCalled (name t1a)])
                      | Inl ex \<Rightarrow>
                          (t1b\<lparr>report := (report t1b)(''error'' \<mapsto> ex_message ex,
                                                      ''trace'' \<mapsto> format_exc ex)\<rparr>,
                           [RunCalled (name t), FailCalled (name t1a)])))
             | Inl ex \<Rightarrow>
                 (t1\<lparr>exit_code := 1,
                     report := (report t1)(''result'' \<mapsto> ''exec_fail'',
                                           ''error'' \<mapsto> ex_message ex,
                                           ''trace'' \<mapsto> format_exc ex)\<rparr>,
                  [RunCalled (name t)]))
      in (case message t2 of
            None \<Rightarrow> t2
          | Some msg \<Rightarrow> t2\<lparr>report := (report t2)(''message'' \<mapsto> msg)\<rparr>,
          calls))"

text \<open>
  The successive values of the object during \<open>InfraTest.execute\<close>: on entry, after \<open>run\<close>,
  and after each following assignment or call, in the order of the source.
\<close>

definition InfraTest_execute_states :: "methods \<Rightarrow> infra_test \<Rightarrow> infra_test list" where
  "InfraTest_execute_states m t =
     (let (r, t1) = run m t;
          steps =
            (case r of
               Inr True \<Rightarrow>
                 (let t1a = (if warn t1 then t1\<lparr>exit_code := 3\<rparr> else t1)
                  in [t1a, t1a\<lparr>report := (report t1a)(''result'' \<mapsto> ''pass'')\<rparr>])
             | Inr False \<Rightarrow>
                 (let t1a = t1\<lparr>exit_code := 1\<rparr>;
                      (f, t1b) = fail m t1a
                  in (case f of
                        Inr _ \<Rightarrow> [t1a, t1b]
                      | Inl ex \<Rightarrow>
                          [t1a, t1b,
                           t1b\<lparr>report := (report t1b)(''error'' \<mapsto> ex_message ex)\<rparr>,
                           t1b\<lparr>report := (report t1b)(''error'' \<mapsto> ex_message ex,
                                                      ''trace'' \<mapsto> format_exc ex)\<rparr>]))
             | Inl ex \<Rightarrow>
                 (let t1a = t1\<lparr>exit_code := 1\<rparr>
                  in [t1a,
                      t1a\<lparr>report := (report t1a)(''result'' \<mapsto> ''exec_fail'')\<rparr>,
                      t1a\<lparr>report := (report t1a)(''result'' \<mapsto> ''exec_fail'',
                                                 ''error'' \<mapsto> ex_message ex)\<rparr>,
                      t1a\<lparr>report := (report t1a)(''result'' \<mapsto> ''exec_fail'',
                                                 ''error'' \<mapsto> ex_message ex,
                                                 ''trace'' \<mapsto> format_exc ex)\<rparr>]));
          t2 = last (t1 # steps)
      in t # t1 # steps @
         [case message t2 of
            None \<Rightarrow> t2
          | Some msg \<Rightarrow> t2\<lparr>report := (report t2)(''message'' \<mapsto> msg)\<rparr>])"

text \<open>
  What a concrete check is expected to leave alone: the framework's own bookkeeping, that
  is the attribute \<open>exit_code\<close> and the entry \<open>result\<close> of the report.
\<close>

definition keeps_exit_code :: "(infra_test \<Rightarrow> 'a \<times> infra_test) \<Rightarrow> bool" where
  "keeps_exit_code h = (\<forall>t. exit_code (snd (h t)) = exit_code t)"

definition keeps_result :: "(infra_test \<Rightarrow> 'a \<times> infra_test) \<Rightarrow> bool" where
  "keeps_result h = (\<forall>t. report (snd (h t)) ''result'' = report t ''result'')"


section \<open>Groups: class \<open>Stage\<close>\<close>

text \<open>
  The list \<open>infra_tests\<close> of a stage holds references to check objects, and the loop of
  \<open>Stage.execute\<close> calls the methods of the object each reference points to. The objects live
  in a store from references to checks: one object may be in the list more than once, and
  what a call assigns is seen by every later use of the same reference.
\<close>

type_synonym ref = nat

type_synonym heap = "ref \<Rightarrow> check"

record stage =
  name :: string
  infra_tests :: "ref list"
  config_master_host :: string
  lightweight_component_hosts :: "string list"

text \<open>
  The body of the loop of \<open>Stage.execute\<close> for one check, given by its methods and its
  object: from the current value of the local variable \<open>exit_code\<close> to its new value, the
  report appended for the check, the object after the calls, and the calls made.
\<close>

definition Stage_execute_test ::
    "int \<Rightarrow> methods \<Rightarrow> infra_test \<Rightarrow> int \<times> report \<times> infra_test \<times> call list" where
  "Stage_execute_test ec m t =
     (let report0 = [''name'' \<mapsto> infra_test.name t, ''description'' \<mapsto> description t,
                     ''result'' \<mapsto> ''fail''];
          (r, t1) = run m t;
          (ec1, report1, t2, calls) =
            (case r of
               Inr True \<Rightarrow>
                 (if warn t1 then 3 else ec, report0(''result'' \<mapsto> ''pass''), t1,
                  [RunCalled (infra_test.name t)])
             | Inr False \<Rightarrow>
                 (let (f, t1b) = fail m t1
                  in (case f of
                        Inr _ \<Rightarrow>
                          (1, report0, t1b,
                           [RunCalled (infra_test.name t), FailCalled (infra_test.name t1)])
                      | Inl ex \<Rightarrow>
                          (1, report0(''error'' \<mapsto> ex_message ex, ''trace'' \<mapsto> format_exc ex),
                           t1b,
                           [RunCalled (infra_test.name t), FailCalled (infra_test.name t1)])))
             | Inl ex \<Rightarrow>
                 (1,
                  report0(''result'' \<mapsto> ''exec_fail'', ''error'' \<mapsto> ex_message ex,
                          ''trace'' \<mapsto> format_exc ex),
                  t1, [RunCalled (infra_test.name t)]));
          report2 = (case message t2 of
                       None \<Rightarrow> report1
                     | Some msg \<Rightarrow> report1(''message'' \<mapsto> msg))
      in (ec1, report2, t2, calls))"

text \<open>
  The loop \<open>for test in self.infra_tests\<close>: each reference is looked up in the store as it
  is when the loop reaches it, and the object is stored back as the calls left it.
\<close>

fun Stage_loop ::
    "int \<Rightarrow> report list \<Rightarrow> heap \<Rightarrow> ref list \<Rightarrow> int \<times> report list \<times> heap \<times> call list" where
  "Stage_loop ec reports hp [] = (ec, reports, hp, [])"
| "Stage_loop ec reports hp (r # rs) =
     (let (ec1, rep, t1, calls) = Stage_execute_test ec (cls (hp r)) (obj (hp r));
          (ec2, reports2, hp2, calls2) =
            Stage_loop ec1 (reports @ [rep]) (hp(r := (hp r)\<lparr>obj := t1\<rparr>)) rs
      in (ec2, reports2, hp2, calls @ calls2))"

text \<open>
  \<open>Stage.execute\<close> returns the exit code; the list of reports is what it hands to the
  logger's \<open>api\<close> channel. The stage itself is not assigned to; the objects are.
\<close>

record stage_result =
  returned :: int
  api_output :: "report list"
  heap_after :: heap
  stage_calls :: "call list"

definition Stage_execute :: "heap \<Rightarrow> stage \<Rightarrow> stage_result" where
  "Stage_execute hp s =
     (let (ec, reports, hp1, calls) = Stage_loop 0 [] hp (infra_tests s)
      in \<lparr>returned = ec, api_output = reports, heap_after = hp1, stage_calls = calls\<rparr>)"


section \<open>Groups: class \<open>Executor\<close>\<close>

record executor =
  name :: string
  report :: group_report
  infra_tests :: "check list"
  exit_code :: int
  hard_error_pre_condition :: bool

definition Executor_init :: "string \<Rightarrow> executor" where
  "Executor_init n =
     \<lparr>name = n, report = [''executor_name'' \<mapsto> Str n], infra_tests = [], exit_code = 0,
      hard_error_pre_condition = True\<rparr>"

definition register_infra_test :: "executor \<Rightarrow> check \<Rightarrow> executor" where
  "register_infra_test e c = e\<lparr>executor.infra_tests := executor.infra_tests e @ [c]\<rparr>"

text \<open>\<open>Executor.run\<close>: the body of the method only writes two log lines.\<close>

definition Executor_run :: "executor \<Rightarrow> executor \<times> call list" where
  "Executor_run e = (e, [])"

definition post_process :: "executor \<Rightarrow> executor" where
  "post_process e =
     (let test_reports = map (\<lambda>c. infra_test.report (obj c)) (executor.infra_tests e);
          e1 = e\<lparr>executor.report := (executor.report e)(''reports'' \<mapsto> Reports test_reports)\<rparr>;
          exit_codes = map (\<lambda>c. infra_test.exit_code (obj c)) (executor.infra_tests e1)
      in if 1 \<in> set exit_codes then
           e1\<lparr>executor.exit_code := 1,
              executor.report := (executor.report e1)(''result'' \<mapsto> Str ''fail'')\<rparr>
         else if 3 \<in> set exit_codes then
           e1\<lparr>executor.exit_code := 3,
              executor.report := (executor.report e1)(''result'' \<mapsto> Str ''warning'')\<rparr>
         else
           e1\<lparr>executor.report := (executor.report e1)(''result'' \<mapsto> Str ''pass'')\<rparr>)"

text \<open>
  \<open>Executor.execute\<close>. The abstract method \<open>pre_condition\<close> is a parameter: it receives the
  executor, may assign its attributes, and returns or raises. The result is \<open>Inl\<close> of the
  exception when one leaves \<open>execute\<close>, with the executor as it is then and the calls made.
\<close>

record executor_result =
  outcome :: "exn + unit"
  executor_after :: executor
  executor_calls :: "call list"

definition Executor_execute ::
    "(executor \<Rightarrow> (exn + unit) \<times> executor) \<Rightarrow> executor \<Rightarrow> executor_result" where
  "Executor_execute pre_condition e =
     (let (p, e1) = pre_condition e;
          proceed = (let (e2, calls) = Executor_run e1
                     in \<lparr>outcome = Inr (), executor_after = post_process e2,
                         executor_calls = PreConditionCalled # calls\<rparr>)
      in (case p of
            Inr _ \<Rightarrow> proceed
          | Inl ex \<Rightarrow>
              if ex_class ex = PreConditionNotSatisfiedError then
                if hard_error_pre_condition e1 then
                  \<lparr>outcome = Inr (),
                   executor_after =
                     e1\<lparr>executor.report :=
                          (executor.report e1)(''result'' \<mapsto> Str ''exec_fail'',
                                               ''error'' \<mapsto> Str (ex_message ex),
                                               ''trace'' \<mapsto> Str (format_exc ex))\<rparr>,
                   executor_calls = [PreConditionCalled]\<rparr>
                else proceed
              else \<lparr>outcome = Inl ex, executor_after = e1,
                    executor_calls = [PreConditionCalled]\<rparr>))"

text \<open>
  An executor as a concrete subclass builds it: \<open>Executor.__init__\<close>, then one call of
  \<open>register_infra_test\<close> for each check.
\<close>

definition Executor_new :: "string \<Rightarrow> check list \<Rightarrow> executor" where
  "Executor_new n cs = foldl register_infra_test (Executor_init n) cs"


section \<open>Concrete checks and groups\<close>

text \<open>
  Some concrete subclasses, used to run the definitions above: a check that passes, one that
  passes with a warning and a message, one that fails, one whose \<open>run\<close> raises, one that
  fails and whose \<open>fail\<close> raises, one that fails the first time it is run and passes from
  then on; a precondition that holds and one that raises. \<open>heap_of cs\<close> is a store whose
  references \<open>0\<close>, \<open>1\<close>, ... point to the checks of \<open>cs\<close>.
\<close>

definition passes :: methods where
  "passes = \<lparr>run = (\<lambda>t. (Inr True, t)), fail = (\<lambda>t. (Inr (), t))\<rparr>"

definition warns :: "string \<Rightarrow> methods" where
  "warns msg =
     \<lparr>run = (\<lambda>t. (Inr True, t\<lparr>message := Some msg, warn := True\<rparr>)),
      fail = (\<lambda>t. (Inr (), t))\<rparr>"

definition fails :: methods where
  "fails = \<lparr>run = (\<lambda>t. (Inr False, t)), fail = (\<lambda>t. (Inr (), t))\<rparr>"

definition run_raises :: "exn \<Rightarrow> methods" where
  "run_raises ex = \<lparr>run = (\<lambda>t. (Inl ex, t)), fail = (\<lambda>t. (Inr (), t))\<rparr>"

definition fail_raises :: "exn \<Rightarrow> methods" where
  "fail_raises ex = \<lparr>run = (\<lambda>t. (Inr False, t)), fail = (\<lambda>t. (Inl ex, t))\<rparr>"

definition new_test :: "string \<Rightarrow> infra_test" where
  "new_test n = InfraTest_init n ''a check'' ''node'' ''node.example.org''"

definition new_check :: "methods \<Rightarrow> string \<Rightarrow> check" where
  "new_check m n = \<lparr>cls = m, obj = new_test n\<rparr>"

definition passes_second_time :: methods where
  "passes_second_time =
     \<lparr>run = (\<lambda>t. (Inr (rc t = 0), t\<lparr>rc := 0\<rparr>)), fail = (\<lambda>t. (Inr (), t))\<rparr>"

definition heap_of :: "check list \<Rightarrow> heap" where
  "heap_of cs r = (if r < length cs then cs ! r else new_check passes [])"

definition new_stage :: "ref list \<Rightarrow> stage" where
  "new_stage rs =
     \<lparr>stage.name = ''stage'', infra_tests = rs, config_master_host = ''cm'',
      lightweight_component_hosts = []\<rparr>"

definition refused :: exn where
  "refused = Exn OtherException ''connection refused'' ''Traceback: IOError''"

definition not_satisfied :: exn where
  "not_satisfied =
     Exn PreConditionNotSatisfiedError ''no site config'' ''Traceback: PreConditionNotSatisfiedError''"

definition pre_condition_holds :: "executor \<Rightarrow> (exn + unit) \<times> executor" where
  "pre_condition_holds e = (Inr (), e)"

definition pre_condition_raises :: "exn \<Rightarrow> executor \<Rightarrow> (exn + unit) \<times> executor" where
  "pre_condition_raises ex e = (Inl ex, e)"

lemmas example_defs =
  passes_def warns_def fails_def run_raises_def fail_raises_def passes_second_time_def
  new_test_def new_check_def heap_of_def new_stage_def refused_def not_satisfied_def pre_condition_holds_def pre_condition_raises_def
  InfraTest_init_def


section \<open>Properties of the groups\<close>

lemma Executor_new_fields:
  "executor.exit_code (Executor_new n cs) = 0"
  "hard_error_pre_condition (Executor_new n cs)"
  "executor.infra_tests (Executor_new n cs) = cs"
  "executor.report (Executor_new n cs) = [''executor_name'' \<mapsto> Str n]"
  "executor.name (Executor_new n cs) = n"
  unfolding Executor_new_def
  by (induction cs rule: rev_induct) (simp_all add: Executor_init_def register_infra_test_def)

text \<open>
  In \<open>Executor.post_process\<close> an exit code 1 among the checks decides the outcome, wherever
  it stands in the list.
\<close>

lemma post_process_fail_precedence:
  assumes "1 \<in> set (map (\<lambda>c. infra_test.exit_code (obj c)) (executor.infra_tests e))"
  shows "executor.exit_code (post_process e) = 1 \<and>
         executor.report (post_process e) ''result'' = Some (Str ''fail'')"
  using assms by (simp add: post_process_def Let_def)

lemma post_process_code:
  "executor.exit_code (post_process e) \<in> {executor.exit_code e, 1, 3}"
  by (simp add: post_process_def Let_def)

text \<open>
  \<open>Executor.execute\<close> never calls a method of a check, and leaves the checks as
  \<open>pre_condition\<close> left them.
\<close>

lemma Executor_execute_calls_no_check:
  "executor_calls (Executor_execute pre_condition e) = [PreConditionCalled] \<and>
   executor.infra_tests (executor_after (Executor_execute pre_condition e)) =
     executor.infra_tests (snd (pre_condition e))"
  by (simp add: Executor_execute_def Executor_run_def post_process_def Let_def
      split: prod.splits sum.splits)

text \<open>
  The body of the loop reads the local variable \<open>exit_code\<close> only to pass it on: the report,
  the object and the calls do not depend on it.
\<close>

lemma Stage_execute_test_rest:
  "snd (Stage_execute_test ec m t) = snd (Stage_execute_test 0 m t)"
  by (simp add: Stage_execute_test_def Let_def split: prod.splits sum.splits bool.splits)

lemma Stage_execute_test_code:
  "fst (Stage_execute_test ec m t) \<in> {ec, 1, 3}"
  by (simp add: Stage_execute_test_def Let_def split: prod.splits sum.splits bool.splits)

lemma Stage_execute_test_runs:
  "filter (\<lambda>x. \<exists>n. x = RunCalled n) (snd (snd (snd (Stage_execute_test ec m t)))) =
     [RunCalled (infra_test.name t)]"
  by (simp add: Stage_execute_test_def Let_def split: prod.splits sum.splits bool.splits)

text \<open>The loop over a list in two parts is the loop over the first, then over the second.\<close>

lemma Stage_loop_append:
  "Stage_loop ec reps hp (xs @ ys) =
     (let (ec1, reps1, hp1, calls1) = Stage_loop ec reps hp xs;
          (ec2, reps2, hp2, calls2) = Stage_loop ec1 reps1 hp1 ys
      in (ec2, reps2, hp2, calls1 @ calls2))"
  by (induction xs arbitrary: ec reps hp) (simp_all add: split_def Let_def)

text \<open>
  The reports appended, the store and the calls of the loop depend neither on the exit code
  nor on the reports it starts with.
\<close>

lemma Stage_loop_rest:
  "snd (Stage_loop ec reps hp rs) =
     (reps @ fst (snd (Stage_loop 0 [] hp rs)), snd (snd (Stage_loop 0 [] hp rs)))"
proof (induction rs arbitrary: ec reps hp)
  case Nil
  show ?case by simp
next
  case (Cons r rs)
  let ?body = "\<lambda>ec. Stage_execute_test ec (cls (hp r)) (obj (hp r))"
  let ?rep = "fst (snd (?body 0))"
  let ?hp = "hp(r := (hp r)\<lparr>obj := fst (snd (snd (?body 0)))\<rparr>)"
  have body: "snd (?body ec) = snd (?body 0)"
    by (rule Stage_execute_test_rest)
  have here: "snd (Stage_loop ec reps hp (r # rs)) =
      (fst (snd (Stage_loop (fst (?body ec)) (reps @ [?rep]) ?hp rs)),
       fst (snd (snd (Stage_loop (fst (?body ec)) (reps @ [?rep]) ?hp rs))),
       snd (snd (snd (?body 0))) @
         snd (snd (snd (Stage_loop (fst (?body ec)) (reps @ [?rep]) ?hp rs))))"
    using body by (simp add: split_def Let_def)
  have there: "snd (Stage_loop 0 [] hp (r # rs)) =
      (fst (snd (Stage_loop (fst (?body 0)) [?rep] ?hp rs)),
       fst (snd (snd (Stage_loop (fst (?body 0)) [?rep] ?hp rs))),
       snd (snd (snd (?body 0))) @
         snd (snd (snd (Stage_loop (fst (?body 0)) [?rep] ?hp rs))))"
    by (simp add: split_def Let_def)
  have one: "snd (Stage_loop (fst (?body ec)) (reps @ [?rep]) ?hp rs) =
      ((reps @ [?rep]) @ fst (snd (Stage_loop 0 [] ?hp rs)), snd (snd (Stage_loop 0 [] ?hp rs)))"
    by (rule Cons.IH)
  have two: "snd (Stage_loop (fst (?body 0)) [?rep] ?hp rs) =
      ([?rep] @ fst (snd (Stage_loop 0 [] ?hp rs)), snd (snd (Stage_loop 0 [] ?hp rs)))"
    by (rule Cons.IH)
  show ?case
    unfolding here there one two by simp
qed

lemma Stage_loop_returned:
  "fst (Stage_loop ec reps hp rs) = fst (Stage_loop ec [] hp rs)"
proof (induction rs arbitrary: ec reps hp)
  case Nil
  show ?case by simp
next
  case (Cons r rs)
  let ?body = "Stage_execute_test ec (cls (hp r)) (obj (hp r))"
  let ?hp = "hp(r := (hp r)\<lparr>obj := fst (snd (snd ?body))\<rparr>)"
  have "fst (Stage_loop (fst ?body) (reps @ [fst (snd ?body)]) ?hp rs) =
        fst (Stage_loop (fst ?body) [] ?hp rs)"
    by (rule Cons.IH)
  moreover have "fst (Stage_loop (fst ?body) [fst (snd ?body)] ?hp rs) =
        fst (Stage_loop (fst ?body) [] ?hp rs)"
    by (rule Cons.IH)
  ultimately show ?case
    by (simp add: split_def Let_def)
qed

text \<open>Every reference of the list gets one report and one call of \<open>run\<close>.\<close>

lemma Stage_loop_length:
  "length (fst (snd (Stage_loop ec reps hp rs))) = length reps + length rs"
  by (induction rs arbitrary: ec reps hp) (simp_all add: split_def Let_def)

lemma Stage_loop_runs:
  "length (filter (\<lambda>x. \<exists>n. x = RunCalled n) (snd (snd (snd (Stage_loop ec reps hp rs))))) =
     length rs"
  by (induction rs arbitrary: ec reps hp)
    (simp_all add: split_def Let_def Stage_execute_test_runs)

lemma Stage_loop_code:
  "ec \<in> {0, 1, 3} \<Longrightarrow> fst (Stage_loop ec reps hp rs) \<in> {0, 1, 3}"
proof (induction rs arbitrary: ec reps hp)
  case Nil
  then show ?case by simp
next
  case (Cons r rs)
  let ?body = "Stage_execute_test ec (cls (hp r)) (obj (hp r))"
  have "fst ?body \<in> {0, 1, 3}"
    using Stage_execute_test_code [of ec "cls (hp r)" "obj (hp r)"] Cons.prems by auto
  then have "fst (Stage_loop (fst ?body) (reps @ [fst (snd ?body)])
                  (hp(r := (hp r)\<lparr>obj := fst (snd (snd ?body))\<rparr>)) rs) \<in> {0, 1, 3}"
    by (rule Cons.IH)
  then show ?case by (simp add: split_def Let_def)
qed

text \<open>
  One object registered twice is run twice, the second time as the first run left it: the
  check below fails, then passes.
\<close>

lemma Stage_execute_shared_object:
  "map (\<lambda>r. r ''result'')
     (api_output (Stage_execute (heap_of [new_check passes_second_time ''A'']) (new_stage [0, 0]))) =
     [Some ''fail'', Some ''pass''] \<and>
   stage_calls (Stage_execute (heap_of [new_check passes_second_time ''A'']) (new_stage [0, 0])) =
     [RunCalled ''A'', FailCalled ''A'', RunCalled ''A''] \<and>
   returned (Stage_execute (heap_of [new_check passes_second_time ''A'']) (new_stage [0, 0])) = 1"
  by (simp add: Stage_execute_def Stage_execute_test_def example_defs)


section \<open>The claims\<close>

text \<open>
  C1. A group with at least one check of exit code 1 has the aggregate exit code 1, whatever
  the order of the checks. \<open>Executor.post_process\<close> does so (\<open>post_process_fail_precedence\<close>).
  \<open>Stage.execute\<close> does not: each failing or warning check overwrites the local variable
  \<open>exit_code\<close>, so the last such check decides. A stage with a failing check followed by a
  warning check returns 3; the same checks in the other order return 1.
\<close>

theorem Stage_execute_order_dependent:
  "returned (Stage_execute
       (heap_of [new_check fails ''A'', new_check (warns ''disk 80% full'') ''B''])
       (new_stage [0, 1])) = 3 \<and>
   map (\<lambda>r. r ''result'') (api_output (Stage_execute
       (heap_of [new_check fails ''A'', new_check (warns ''disk 80% full'') ''B''])
       (new_stage [0, 1]))) =
     [Some ''fail'', Some ''pass''] \<and>
   returned (Stage_execute
       (heap_of [new_check fails ''A'', new_check (warns ''disk 80% full'') ''B''])
       (new_stage [1, 0])) = 1"
  by (simp add: Stage_execute_def Stage_execute_test_def example_defs)

text \<open>
  C2. \<open>Executor.execute\<close> with a precondition that holds is claimed to run every registered
  check. It runs none: \<open>Executor.run\<close> only logs. For an executor with one check whose \<open>run\<close>
  returns false, no method of the check is called, the check is unchanged, the aggregate
  exit code is 0 and the aggregate result is \<open>pass\<close>, over a collected report that still says
  \<open>fail\<close> as constructed. Run by \<open>InfraTest.execute\<close>, the same check has exit code 1.
\<close>

theorem Executor_execute_skips_checks:
  "(let r = Executor_execute pre_condition_holds (Executor_new ''g'' [new_check fails ''A''])
    in outcome r = Inr () \<and>
       executor_calls r = [PreConditionCalled] \<and>
       executor.exit_code (executor_after r) = 0 \<and>
       executor.report (executor_after r) ''result'' = Some (Str ''pass'') \<and>
       executor.report (executor_after r) ''reports'' =
         Some (Reports [infra_test.report (new_test ''A'')]) \<and>
       executor.infra_tests (executor_after r) = [new_check fails ''A'']) \<and>
   (let (t, calls) = InfraTest_execute fails (new_test ''A'')
    in infra_test.exit_code t = 1 \<and> calls = [RunCalled ''A'', FailCalled ''A''])"
  by (simp add: Executor_execute_def Executor_run_def post_process_def Executor_new_fields
      InfraTest_execute_def example_defs Let_def)

text \<open>
  C3. When \<open>pre_condition\<close> raises \<open>PreConditionNotSatisfiedError\<close> and the flag
  \<open>hard_error_pre_condition\<close> is true (as \<open>Executor.__init__\<close> sets it), \<open>Executor.execute\<close>
  returns at once: the aggregate result is \<open>exec_fail\<close>, the message and the trace of the
  exception are in the aggregate report, no method of a check is called, the checks are
  untouched and no list of reports is written.
\<close>

theorem Executor_execute_precondition_fatal:
  assumes "pre_condition e = (Inl ex, e1)"
    and "ex_class ex = PreConditionNotSatisfiedError"
    and "hard_error_pre_condition e1"
  shows "hard_error_pre_condition (Executor_init n) \<and>
         (let r = Executor_execute pre_condition e
          in outcome r = Inr () \<and>
             executor.report (executor_after r) ''result'' = Some (Str ''exec_fail'') \<and>
             executor.report (executor_after r) ''error'' = Some (Str (ex_message ex)) \<and>
             executor.report (executor_after r) ''trace'' = Some (Str (format_exc ex)) \<and>
             executor.report (executor_after r) ''reports'' = executor.report e1 ''reports'' \<and>
             executor.infra_tests (executor_after r) = executor.infra_tests e1 \<and>
             executor_calls r = [PreConditionCalled])"
  using assms by (simp add: Executor_execute_def Executor_init_def)

text \<open>An executor with two registered checks whose precondition is not satisfied.\<close>

theorem Executor_execute_precondition_fatal_witness:
  "hard_error_pre_condition (Executor_new ''g'' [new_check passes ''A'', new_check fails ''B'']) \<and>
   (let r = Executor_execute (pre_condition_raises not_satisfied)
              (Executor_new ''g'' [new_check passes ''A'', new_check fails ''B''])
    in outcome r = Inr () \<and>
       executor.report (executor_after r) ''result'' = Some (Str ''exec_fail'') \<and>
       executor.report (executor_after r) ''error'' = Some (Str ''no site config'') \<and>
       executor.report (executor_after r) ''trace'' =
         Some (Str ''Traceback: PreConditionNotSatisfiedError'') \<and>
       executor.report (executor_after r) ''reports'' = None \<and>
       executor.infra_tests (executor_after r) = [new_check passes ''A'', new_check fails ''B''] \<and>
       executor_calls r = [PreConditionCalled])"
proof -
  let ?e = "Executor_new ''g'' [new_check passes ''A'', new_check fails ''B'']"
  have raises: "pre_condition_raises not_satisfied ?e = (Inl not_satisfied, ?e)"
    by (simp add: pre_condition_raises_def)
  have kind: "ex_class not_satisfied = PreConditionNotSatisfiedError"
    by (simp add: not_satisfied_def)
  have flag: "hard_error_pre_condition ?e"
    by (simp add: Executor_new_fields)
  show ?thesis
    using Executor_execute_precondition_fatal
            [where pre_condition = "pre_condition_raises not_satisfied" and e = ?e and n = "''g''",
             OF raises kind flag] flag
    by (simp add: Executor_new_fields not_satisfied_def format_exc_def Let_def)
qed

text \<open>
  C4. When \<open>run\<close> raises, the report of the check has the result \<open>exec_fail\<close>, the exit code
  is 1, the message and the trace of the exception are in the report, and \<open>fail\<close> is not
  called: \<open>run\<close> is the only call, and the outcome is the same whatever \<open>fail\<close> is. This
  holds in \<open>InfraTest.execute\<close> and in the loop of \<open>Stage.execute\<close>, where the report is the
  one appended for the check and the exit code is the local variable.
\<close>

theorem run_fault_is_exec_fail:
  assumes "run m t = (Inl ex, t1)"
  shows "(let (t2, calls) = InfraTest_execute m t
          in infra_test.report t2 ''result'' = Some ''exec_fail'' \<and>
             infra_test.exit_code t2 = 1 \<and>
             infra_test.report t2 ''error'' = Some (ex_message ex) \<and>
             infra_test.report t2 ''trace'' = Some (format_exc ex) \<and>
             calls = [RunCalled (infra_test.name t)]) \<and>
         InfraTest_execute (m\<lparr>fail := g\<rparr>) t = InfraTest_execute m t \<and>
         (let (ec1, rep, t2, calls) = Stage_execute_test ec m t
          in ec1 = 1 \<and>
             rep ''result'' = Some ''exec_fail'' \<and>
             rep ''error'' = Some (ex_message ex) \<and>
             rep ''trace'' = Some (format_exc ex) \<and>
             calls = [RunCalled (infra_test.name t)]) \<and>
         Stage_execute_test ec (m\<lparr>fail := g\<rparr>) t = Stage_execute_test ec m t"
  using assms
  by (simp add: InfraTest_execute_def Stage_execute_test_def Let_def split: option.splits)

text \<open>A check whose \<open>run\<close> raises, executed alone and in a stage whose exit code was 3.\<close>

theorem run_fault_is_exec_fail_witness:
  "run (run_raises refused) (new_test ''A'') = (Inl refused, new_test ''A'') \<and>
   (let (t2, calls) = InfraTest_execute (run_raises refused) (new_test ''A'')
    in infra_test.report t2 ''result'' = Some ''exec_fail'' \<and>
       infra_test.exit_code t2 = 1 \<and>
       infra_test.report t2 ''error'' = Some ''connection refused'' \<and>
       infra_test.report t2 ''trace'' = Some ''Traceback: IOError'' \<and>
       calls = [RunCalled ''A'']) \<and>
   (let (ec1, rep, t2, calls) = Stage_execute_test 3 (run_raises refused) (new_test ''A'')
    in ec1 = 1 \<and>
       rep ''result'' = Some ''exec_fail'' \<and>
       rep ''error'' = Some ''connection refused'' \<and>
       rep ''trace'' = Some ''Traceback: IOError'' \<and>
       calls = [RunCalled ''A''])"
proof -
  have raises: "run (run_raises refused) (new_test ''A'') = (Inl refused, new_test ''A'')"
    by (simp add: run_raises_def)
  have name: "infra_test.name (new_test ''A'') = ''A''"
    by (simp add: new_test_def InfraTest_init_def)
  show ?thesis
    using run_fault_is_exec_fail
            [where m = "run_raises refused" and ec = 3 and g = "fail (run_raises refused)",
             OF raises]
      raises name
    by (simp add: refused_def format_exc_def split_def Let_def)
qed

text \<open>
  C5. When \<open>run\<close> returns false and \<open>fail\<close> raises, the exception is caught.

  In \<open>InfraTest.execute\<close> nothing is assigned to \<open>exit_code\<close> or to the \<open>result\<close> entry after
  the call of \<open>fail\<close>, and the message and the trace of the exception are added to the same
  report: the exit code is the 1 assigned before the call and the result is still \<open>fail\<close>,
  for a check whose own methods leave the two alone.

  In \<open>Stage.execute\<close> both are local to the loop: the exit code is 1, and the report of the
  check, with the result \<open>fail\<close>, the message and the trace, is in the output of the stage at
  the position of the check. The loop goes on: the stage has one report for each entry of
  its list, and the entries after the check are run, one call of \<open>run\<close> and one report each,
  exactly as a stage that holds only them runs them on the objects as they then are. The
  stage returns what the loop over those entries makes of the 1 assigned for the check.
\<close>

theorem fail_fault_is_contained:
  assumes run: "run m t = (Inr False, t1)"
    and fail_obj: "fail m (t1\<lparr>infra_test.exit_code := 1\<rparr>) = (Inl ex, t2)"
    and fail_stage: "fail m t1 = (Inl ex', t3)"
    and tests: "stage.infra_tests s = before @ r # rest"
    and reached:
      "heap_after (Stage_execute hp (s\<lparr>stage.infra_tests := before\<rparr>)) r = \<lparr>cls = m, obj = t\<rparr>"
  shows "(let (t4, calls) = InfraTest_execute m t
          in infra_test.exit_code t4 = infra_test.exit_code t2 \<and>
             infra_test.report t4 ''result'' = infra_test.report t2 ''result'' \<and>
             infra_test.report t4 ''error'' = Some (ex_message ex) \<and>
             infra_test.report t4 ''trace'' = Some (format_exc ex) \<and>
             calls = [RunCalled (infra_test.name t), FailCalled (infra_test.name t1)] \<and>
             (keeps_exit_code (fail m) \<longrightarrow> infra_test.exit_code t4 = 1) \<and>
             (keeps_result (fail m) \<and> keeps_result (run m) \<and>
              infra_test.report t ''result'' = Some ''fail'' \<longrightarrow>
                infra_test.report t4 ''result'' = Some ''fail'')) \<and>
         (let (ec1, rep, t4, calls) = Stage_execute_test ec m t
          in ec1 = 1 \<and>
             rep ''result'' = Some ''fail'' \<and>
             rep ''error'' = Some (ex_message ex') \<and>
             rep ''trace'' = Some (format_exc ex') \<and>
             t4 = t3 \<and>
             calls = [RunCalled (infra_test.name t), FailCalled (infra_test.name t1)]) \<and>
         (let whole = Stage_execute hp s;
              first = Stage_execute hp (s\<lparr>stage.infra_tests := before\<rparr>);
              others = Stage_execute ((heap_after first)(r := \<lparr>cls = m, obj = t3\<rparr>))
                         (s\<lparr>stage.infra_tests := rest\<rparr>);
              rep = api_output whole ! length before
          in length (api_output whole) = length (stage.infra_tests s) \<and>
             rep ''result'' = Some ''fail'' \<and>
             rep ''error'' = Some (ex_message ex') \<and>
             rep ''trace'' = Some (format_exc ex') \<and>
             api_output whole = api_output first @ rep # api_output others \<and>
             stage_calls whole =
               stage_calls first @
               RunCalled (infra_test.name t) # FailCalled (infra_test.name t1) #
               stage_calls others \<and>
             heap_after whole = heap_after others \<and>
             returned whole =
               fst (Stage_loop 1 [] ((heap_after first)(r := \<lparr>cls = m, obj = t3\<rparr>)) rest) \<and>
             length (api_output others) = length rest \<and>
             length (filter (\<lambda>x. \<exists>n. x = RunCalled n) (stage_calls others)) = length rest)"
proof -
  have t2_code: "infra_test.exit_code t2 = 1" if "keeps_exit_code (fail m)"
    using that fail_obj
    by (auto simp: keeps_exit_code_def dest: spec [of _ "t1\<lparr>infra_test.exit_code := 1\<rparr>"])
  have t2_result: "infra_test.report t2 ''result'' = Some ''fail''"
    if "keeps_result (fail m)" "keeps_result (run m)"
      "infra_test.report t ''result'' = Some ''fail''"
  proof -
    have "infra_test.report t1 ''result'' = Some ''fail''"
      using that(2,3) run by (auto simp: keeps_result_def dest: spec [of _ t])
    then show ?thesis
      using that(1) fail_obj
      by (auto simp: keeps_result_def dest: spec [of _ "t1\<lparr>infra_test.exit_code := 1\<rparr>"])
  qed
  have check: "(let (t4, calls) = InfraTest_execute m t
          in infra_test.exit_code t4 = infra_test.exit_code t2 \<and>
             infra_test.report t4 ''result'' = infra_test.report t2 ''result'' \<and>
             infra_test.report t4 ''error'' = Some (ex_message ex) \<and>
             infra_test.report t4 ''trace'' = Some (format_exc ex) \<and>
             calls = [RunCalled (infra_test.name t), FailCalled (infra_test.name t1)] \<and>
             (keeps_exit_code (fail m) \<longrightarrow> infra_test.exit_code t4 = 1) \<and>
             (keeps_result (fail m) \<and> keeps_result (run m) \<and>
              infra_test.report t ''result'' = Some ''fail'' \<longrightarrow>
                infra_test.report t4 ''result'' = Some ''fail''))"
    using run fail_obj t2_code t2_result
    by (simp add: InfraTest_execute_def Let_def split: option.splits)
  obtain rep where body: "Stage_execute_test ec m t =
        (1, rep, t3, [RunCalled (infra_test.name t), FailCalled (infra_test.name t1)])"
      and rep: "rep ''result'' = Some ''fail''" "rep ''error'' = Some (ex_message ex')"
        "rep ''trace'' = Some (format_exc ex')" for ec
    using run fail_stage
    by (simp add: Stage_execute_test_def Let_def split: option.splits)
  have in_body: "(let (ec1, rep, t4, calls) = Stage_execute_test ec m t
          in ec1 = 1 \<and>
             rep ''result'' = Some ''fail'' \<and>
             rep ''error'' = Some (ex_message ex') \<and>
             rep ''trace'' = Some (format_exc ex') \<and>
             t4 = t3 \<and>
             calls = [RunCalled (infra_test.name t), FailCalled (infra_test.name t1)])"
    using body rep by simp
  define first where "first = Stage_loop 0 [] hp before"
  define hp1 where "hp1 = fst (snd (snd first))"
  define hp2 where "hp2 = hp1(r := \<lparr>cls = m, obj = t3\<rparr>)"
  define others where "others = Stage_loop 0 [] hp2 rest"
  have at_r: "hp1 r = \<lparr>cls = m, obj = t\<rparr>"
    using reached by (simp add: Stage_execute_def split_def Let_def hp1_def first_def)
  have first_len: "length (fst (snd first)) = length before"
    using Stage_loop_length [of 0 "[]" hp before] by (simp add: first_def)
  have step: "snd (Stage_loop (fst first) (fst (snd first)) hp1 (r # rest)) =
      (fst (snd first) @ rep # fst (snd others), fst (snd (snd others)),
       RunCalled (infra_test.name t) # FailCalled (infra_test.name t1) # snd (snd (snd others)))"
  proof -
    have "snd (Stage_loop (fst first) (fst (snd first)) hp1 (r # rest)) =
        (fst (snd (Stage_loop 1 (fst (snd first) @ [rep]) hp2 rest)),
         fst (snd (snd (Stage_loop 1 (fst (snd first) @ [rep]) hp2 rest))),
         [RunCalled (infra_test.name t), FailCalled (infra_test.name t1)] @
           snd (snd (snd (Stage_loop 1 (fst (snd first) @ [rep]) hp2 rest))))"
      using at_r body [of "fst first"] by (simp add: split_def Let_def hp2_def)
    moreover have "snd (Stage_loop 1 (fst (snd first) @ [rep]) hp2 rest) =
        ((fst (snd first) @ [rep]) @ fst (snd others), snd (snd others))"
      unfolding others_def by (rule Stage_loop_rest)
    ultimately show ?thesis by simp
  qed
  have whole: "snd (Stage_loop 0 [] hp (stage.infra_tests s)) =
      (fst (snd first) @ rep # fst (snd others), fst (snd (snd others)),
       snd (snd (snd first)) @
       RunCalled (infra_test.name t) # FailCalled (infra_test.name t1) # snd (snd (snd others)))"
    using step
    by (simp add: tests Stage_loop_append split_def Let_def first_def [symmetric] hp1_def)
  have code: "returned (Stage_execute hp s) = fst (Stage_loop 1 [] hp2 rest)"
  proof -
    have "fst (Stage_loop (fst first) (fst (snd first)) hp1 (r # rest)) =
          fst (Stage_loop 1 (fst (snd first) @ [rep]) hp2 rest)"
      using at_r body [of "fst first"] by (simp add: split_def Let_def hp2_def)
    also have "\<dots> = fst (Stage_loop 1 [] hp2 rest)"
      by (rule Stage_loop_returned)
    finally show ?thesis
      by (simp add: Stage_execute_def tests Stage_loop_append split_def Let_def
          first_def [symmetric] hp1_def)
  qed
  have out: "api_output (Stage_execute hp s) = fst (snd first) @ rep # fst (snd others)"
    "stage_calls (Stage_execute hp s) =
       snd (snd (snd first)) @
       RunCalled (infra_test.name t) # FailCalled (infra_test.name t1) # snd (snd (snd others))"
    "heap_after (Stage_execute hp s) = fst (snd (snd others))"
    using whole by (simp_all add: Stage_execute_def split_def Let_def)
  have parts:
    "api_output (Stage_execute hp (s\<lparr>stage.infra_tests := before\<rparr>)) = fst (snd first)"
    "stage_calls (Stage_execute hp (s\<lparr>stage.infra_tests := before\<rparr>)) = snd (snd (snd first))"
    "heap_after (Stage_execute hp (s\<lparr>stage.infra_tests := before\<rparr>)) = hp1"
    "api_output (Stage_execute hp2 (s\<lparr>stage.infra_tests := rest\<rparr>)) = fst (snd others)"
    "stage_calls (Stage_execute hp2 (s\<lparr>stage.infra_tests := rest\<rparr>)) = snd (snd (snd others))"
    "heap_after (Stage_execute hp2 (s\<lparr>stage.infra_tests := rest\<rparr>)) = fst (snd (snd others))"
    by (simp_all add: Stage_execute_def split_def Let_def first_def hp1_def others_def)
  have others_len: "length (fst (snd others)) = length rest"
    using Stage_loop_length [of 0 "[]" hp2 rest] by (simp add: others_def)
  have others_runs:
    "length (filter (\<lambda>x. \<exists>n. x = RunCalled n) (snd (snd (snd others)))) = length rest"
    unfolding others_def by (rule Stage_loop_runs)
  have at: "(fst (snd first) @ rep # fst (snd others)) ! length before = rep"
    using first_len by (simp add: nth_append)
  have in_stage: "(let whole = Stage_execute hp s;
              first = Stage_execute hp (s\<lparr>stage.infra_tests := before\<rparr>);
              others = Stage_execute ((heap_after first)(r := \<lparr>cls = m, obj = t3\<rparr>))
                         (s\<lparr>stage.infra_tests := rest\<rparr>);
              rep = api_output whole ! length before
          in length (api_output whole) = length (stage.infra_tests s) \<and>
             rep ''result'' = Some ''fail'' \<and>
             rep ''error'' = Some (ex_message ex') \<and>
             rep ''trace'' = Some (format_exc ex') \<and>
             api_output whole = api_output first @ rep # api_output others \<and>
             stage_calls whole =
               stage_calls first @
               RunCalled (infra_test.name t) # FailCalled (infra_test.name t1) #
               stage_calls others \<and>
             heap_after whole = heap_after others \<and>
             returned whole =
               fst (Stage_loop 1 [] ((heap_after first)(r := \<lparr>cls = m, obj = t3\<rparr>)) rest) \<and>
             length (api_output others) = length rest \<and>
             length (filter (\<lambda>x. \<exists>n. x = RunCalled n) (stage_calls others)) = length rest)"
    unfolding Let_def parts(3) hp2_def [symmetric] parts out at code
    using rep first_len others_len others_runs by (simp add: tests)
  show ?thesis
    using check in_body in_stage by blast
qed

text \<open>A check whose \<open>fail\<close> raises, alone and between two other checks of a stage.\<close>

theorem fail_fault_is_contained_witness:
  "(let (t4, calls) = InfraTest_execute (fail_raises refused) (new_test ''B'')
    in infra_test.exit_code t4 = 1 \<and>
       infra_test.report t4 ''result'' = Some ''fail'' \<and>
       infra_test.report t4 ''error'' = Some ''connection refused'' \<and>
       infra_test.report t4 ''trace'' = Some ''Traceback: IOError'' \<and>
       calls = [RunCalled ''B'', FailCalled ''B'']) \<and>
   (let (ec1, rep, t4, calls) = Stage_execute_test 0 (fail_raises refused) (new_test ''B'')
    in ec1 = 1 \<and>
       rep ''result'' = Some ''fail'' \<and>
       rep ''error'' = Some ''connection refused'' \<and>
       rep ''trace'' = Some ''Traceback: IOError'' \<and>
       calls = [RunCalled ''B'', FailCalled ''B'']) \<and>
   (let whole = Stage_execute
          (heap_of [new_check passes ''A'', new_check (fail_raises refused) ''B'',
                    new_check (warns ''disk 80% full'') ''C''])
          (new_stage [0, 1, 2])
    in map (\<lambda>r. r ''result'') (api_output whole) = [Some ''pass'', Some ''fail'', Some ''pass''] \<and>
       map (\<lambda>r. r ''error'') (api_output whole) = [None, Some ''connection refused'', None] \<and>
       map (\<lambda>r. r ''message'') (api_output whole) = [None, None, Some ''disk 80% full''] \<and>
       stage_calls whole =
         [RunCalled ''A'', RunCalled ''B'', FailCalled ''B'', RunCalled ''C''] \<and>
       returned (Stage_execute
          (heap_of [new_check passes ''A'', new_check (fail_raises refused) ''B''])
          (new_stage [0, 1])) = 1)"
proof -
  let ?m = "fail_raises refused"
  let ?t = "new_test ''B''"
  let ?hp = "heap_of [new_check passes ''A'', new_check ?m ''B'',
                      new_check (warns ''disk 80% full'') ''C'']"
  let ?s = "new_stage [0, 1, 2]"
  have run: "run ?m ?t = (Inr False, ?t)"
    by (simp add: fail_raises_def)
  have fail_obj: "fail ?m (?t\<lparr>infra_test.exit_code := 1\<rparr>) =
                    (Inl refused, ?t\<lparr>infra_test.exit_code := 1\<rparr>)"
    by (simp add: fail_raises_def)
  have fail_stage: "fail ?m ?t = (Inl refused, ?t)"
    by (simp add: fail_raises_def)
  have frame: "keeps_exit_code (fail ?m)" "keeps_result (fail ?m)" "keeps_result (run ?m)"
    by (simp_all add: keeps_exit_code_def keeps_result_def fail_raises_def)
  have fresh: "infra_test.report ?t ''result'' = Some ''fail''"
    by (simp add: new_test_def InfraTest_init_def)
  have name: "infra_test.name ?t = ''B''"
    by (simp add: new_test_def InfraTest_init_def)
  have tests: "stage.infra_tests ?s = [0] @ 1 # [2]"
    by (simp add: new_stage_def)
  have reached: "heap_after (Stage_execute ?hp (?s\<lparr>stage.infra_tests := [0]\<rparr>)) 1 =
                   \<lparr>cls = ?m, obj = ?t\<rparr>"
    by (simp add: Stage_execute_def Stage_execute_test_def example_defs)
  note inst = fail_fault_is_contained
      [where m = ?m and ec = 0 and hp = ?hp and s = ?s and before = "[0]" and r = 1
         and rest = "[2]", OF run fail_obj fail_stage tests reached]
  have alone: "(let (t4, calls) = InfraTest_execute ?m ?t
    in infra_test.exit_code t4 = 1 \<and>
       infra_test.report t4 ''result'' = Some ''fail'' \<and>
       infra_test.report t4 ''error'' = Some ''connection refused'' \<and>
       infra_test.report t4 ''trace'' = Some ''Traceback: IOError'' \<and>
       calls = [RunCalled ''B'', FailCalled ''B''])"
    using inst [THEN conjunct1] frame fresh name
    by (simp add: refused_def format_exc_def split_def Let_def)
  have body: "(let (ec1, rep, t4, calls) = Stage_execute_test 0 ?m ?t
    in ec1 = 1 \<and>
       rep ''result'' = Some ''fail'' \<and>
       rep ''error'' = Some ''connection refused'' \<and>
       rep ''trace'' = Some ''Traceback: IOError'' \<and>
       calls = [RunCalled ''B'', FailCalled ''B''])"
    using inst [THEN conjunct2, THEN conjunct1] name
    by (simp add: refused_def format_exc_def split_def Let_def)
  have stage: "(let whole = Stage_execute ?hp ?s
    in map (\<lambda>r. r ''result'') (api_output whole) = [Some ''pass'', Some ''fail'', Some ''pass''] \<and>
       map (\<lambda>r. r ''error'') (api_output whole) = [None, Some ''connection refused'', None] \<and>
       map (\<lambda>r. r ''message'') (api_output whole) = [None, None, Some ''disk 80% full''] \<and>
       stage_calls whole =
         [RunCalled ''A'', RunCalled ''B'', FailCalled ''B'', RunCalled ''C''] \<and>
       returned (Stage_execute (heap_of [new_check passes ''A'', new_check ?m ''B''])
          (new_stage [0, 1])) = 1)"
    by (simp add: Stage_execute_def Stage_execute_test_def example_defs)
  show ?thesis
    using alone body stage by blast
qed

text \<open>
  C9. When \<open>pre_condition\<close> raises an exception that is not a
  \<open>PreConditionNotSatisfiedError\<close>, \<open>Executor.execute\<close> does not catch it: the exception
  leaves \<open>execute\<close>, with the executor as \<open>pre_condition\<close> left it. A
  \<open>PreConditionNotSatisfiedError\<close> never leaves \<open>execute\<close>.
\<close>

theorem Executor_execute_other_fault_propagates:
  assumes "pre_condition e = (Inl ex, e1)"
  shows "(ex_class ex \<noteq> PreConditionNotSatisfiedError \<longrightarrow>
            Executor_execute pre_condition e =
              \<lparr>outcome = Inl ex, executor_after = e1, executor_calls = [PreConditionCalled]\<rparr>) \<and>
         (ex_class ex = PreConditionNotSatisfiedError \<longrightarrow>
            outcome (Executor_execute pre_condition e) = Inr ())"
  using assms by (simp add: Executor_execute_def Executor_run_def)

text \<open>One precondition that raises another exception, one that raises the designated one.\<close>

theorem Executor_execute_other_fault_propagates_witness:
  "ex_class refused \<noteq> PreConditionNotSatisfiedError \<and>
   Executor_execute (pre_condition_raises refused) (Executor_new ''g'' [new_check passes ''A'']) =
     \<lparr>outcome = Inl refused, executor_after = Executor_new ''g'' [new_check passes ''A''],
      executor_calls = [PreConditionCalled]\<rparr> \<and>
   ex_class not_satisfied = PreConditionNotSatisfiedError \<and>
   outcome (Executor_execute (pre_condition_raises not_satisfied)
              (Executor_new ''g'' [new_check passes ''A''])) = Inr ()"
proof -
  let ?e = "Executor_new ''g'' [new_check passes ''A'']"
  have other: "pre_condition_raises refused ?e = (Inl refused, ?e)"
    by (simp add: pre_condition_raises_def)
  have designated: "pre_condition_raises not_satisfied ?e = (Inl not_satisfied, ?e)"
    by (simp add: pre_condition_raises_def)
  have kinds: "ex_class refused \<noteq> PreConditionNotSatisfiedError"
    "ex_class not_satisfied = PreConditionNotSatisfiedError"
    by (simp_all add: refused_def not_satisfied_def)
  show ?thesis
    using Executor_execute_other_fault_propagates
            [where pre_condition = "pre_condition_raises refused" and e = ?e, OF other]
      Executor_execute_other_fault_propagates
            [where pre_condition = "pre_condition_raises not_satisfied" and e = ?e, OF designated]
      kinds
    by simp
qed

text \<open>
  C10. When \<open>pre_condition\<close> raises \<open>PreConditionNotSatisfiedError\<close> and the flag
  \<open>hard_error_pre_condition\<close> is true, \<open>Executor.execute\<close> assigns nothing to \<open>exit_code\<close>: for
  an executor as constructed and a \<open>pre_condition\<close> that leaves \<open>exit_code\<close> alone, the
  exit code is still the 0 of \<open>Executor.__init__\<close>, although the aggregate result is
  \<open>exec_fail\<close>.
\<close>

theorem Executor_execute_fatal_exit_code_zero:
  assumes "pre_condition (Executor_new n cs) = (Inl ex, e1)"
    and "ex_class ex = PreConditionNotSatisfiedError"
    and "hard_error_pre_condition e1"
    and "executor.exit_code e1 = executor.exit_code (Executor_new n cs)"
  shows "(let r = Executor_execute pre_condition (Executor_new n cs)
          in outcome r = Inr () \<and>
             executor.exit_code (executor_after r) = executor.exit_code (Executor_init n) \<and>
             executor.exit_code (executor_after r) = 0 \<and>
             executor.report (executor_after r) ''result'' = Some (Str ''exec_fail''))"
  using assms by (simp add: Executor_execute_def Executor_new_fields Executor_init_def)

text \<open>An executor with two failing checks whose precondition is not satisfied.\<close>

theorem Executor_execute_fatal_exit_code_zero_witness:
  "(let r = Executor_execute (pre_condition_raises not_satisfied)
              (Executor_new ''g'' [new_check fails ''A'', new_check fails ''B''])
    in outcome r = Inr () \<and>
       executor.exit_code (executor_after r) = 0 \<and>
       executor.report (executor_after r) ''result'' = Some (Str ''exec_fail''))"
proof -
  let ?e = "Executor_new ''g'' [new_check fails ''A'', new_check fails ''B'']"
  have raises: "pre_condition_raises not_satisfied ?e = (Inl not_satisfied, ?e)"
    by (simp add: pre_condition_raises_def)
  have kind: "ex_class not_satisfied = PreConditionNotSatisfiedError"
    by (simp add: not_satisfied_def)
  have flag: "hard_error_pre_condition ?e"
    by (simp add: Executor_new_fields)
  have same: "executor.exit_code ?e = executor.exit_code ?e"
    by simp
  show ?thesis
    using Executor_execute_fatal_exit_code_zero
            [where pre_condition = "pre_condition_raises not_satisfied", OF raises kind flag same]
    by (simp add: Let_def)
qed

text \<open>
  C6. The aggregate exit code of a group is 0, 1 or 3, never 4. \<open>Stage.execute\<close> starts at
  0 and assigns only 1 and 3. \<open>Executor.post_process\<close> assigns 1 or 3 or nothing, so
  \<open>Executor.execute\<close>, on an executor as constructed whose \<open>pre_condition\<close> leaves \<open>exit_code\<close>
  alone, ends with 0, 1 or 3 on every path.
\<close>

theorem exit_code_never_four:
  "returned (Stage_execute hp s) \<in> {0, 1, 3} \<and>
   executor.exit_code (post_process e) \<in> {executor.exit_code e, 1, 3} \<and>
   (executor.exit_code (snd (pre_condition (Executor_new n cs))) =
      executor.exit_code (Executor_new n cs) \<longrightarrow>
    executor.exit_code (executor_after (Executor_execute pre_condition (Executor_new n cs)))
      \<in> {0, 1, 3})"
proof -
  have stage: "returned (Stage_execute hp s) \<in> {0, 1, 3}"
    using Stage_loop_code [of 0 "[]" hp "stage.infra_tests s"]
    by (simp add: Stage_execute_def split_def Let_def)
  have executor:
    "executor.exit_code (executor_after (Executor_execute pre_condition (Executor_new n cs)))
       \<in> {0, 1, 3}"
    if "executor.exit_code (snd (pre_condition (Executor_new n cs))) =
          executor.exit_code (Executor_new n cs)"
  proof -
    obtain p e1 where pre: "pre_condition (Executor_new n cs) = (p, e1)"
      by (cases "pre_condition (Executor_new n cs)")
    with that have e1: "executor.exit_code e1 = 0"
      by (simp add: Executor_new_fields)
    then have "executor.exit_code (post_process e1) \<in> {0, 1, 3}"
      using post_process_code [of e1] by simp
    with e1 pre show ?thesis
      by (auto simp: Executor_execute_def Executor_run_def Let_def split: sum.splits)
  qed
  show ?thesis
    using stage post_process_code executor by blast
qed

text \<open>
  A stage with a failing and a warning check, and an executor over the same two checks
  after each was executed.
\<close>

theorem exit_code_never_four_witness:
  "returned (Stage_execute (heap_of [new_check fails ''A'', new_check (warns ''w'') ''B''])
               (new_stage [0, 1]))
     \<in> {0, 1, 3} \<and>
   executor.exit_code (snd (pre_condition_holds
      (Executor_new ''g'' [\<lparr>cls = fails, obj = fst (InfraTest_execute fails (new_test ''A''))\<rparr>,
                           \<lparr>cls = warns ''w'', obj = fst (InfraTest_execute (warns ''w'') (new_test ''B''))\<rparr>]))) = 0 \<and>
   executor.exit_code (executor_after (Executor_execute pre_condition_holds
      (Executor_new ''g'' [\<lparr>cls = fails, obj = fst (InfraTest_execute fails (new_test ''A''))\<rparr>,
                           \<lparr>cls = warns ''w'', obj = fst (InfraTest_execute (warns ''w'') (new_test ''B''))\<rparr>])))
     = 1"
proof -
  let ?cs = "[\<lparr>cls = fails, obj = fst (InfraTest_execute fails (new_test ''A''))\<rparr>,
              \<lparr>cls = warns ''w'', obj = fst (InfraTest_execute (warns ''w'') (new_test ''B''))\<rparr>]"
  have kept: "executor.exit_code (snd (pre_condition_holds (Executor_new ''g'' ?cs))) = 0"
    by (simp add: pre_condition_holds_def Executor_new_fields)
  have code: "executor.exit_code (executor_after (Executor_execute pre_condition_holds
                (Executor_new ''g'' ?cs))) = 1"
    by (simp add: Executor_execute_def Executor_run_def post_process_def Executor_new_fields
        InfraTest_execute_def example_defs Let_def)
  show ?thesis
    using exit_code_never_four
            [where hp = "heap_of [new_check fails ''A'', new_check (warns ''w'') ''B'']"
               and s = "new_stage [0, 1]" and pre_condition = pre_condition_holds and n = "''g''" and cs = ?cs]
      kept code
    by simp
qed

text \<open>
  C7. When \<open>run\<close> returns true, the result in the report is \<open>pass\<close>. With the warning flag
  set after \<open>run\<close> the exit code is 3, whatever the message is. Without it nothing is
  assigned to the exit code: it is 0 for a check whose \<open>run\<close> left the 0 of
  \<open>InfraTest.__init__\<close> in place, and a stage that holds only this check returns 0.
\<close>

theorem warning_flag_gives_exit_code_three:
  assumes "run m t = (Inr True, t1)"
  shows "(let (t2, calls) = InfraTest_execute m t
          in infra_test.report t2 ''result'' = Some ''pass'' \<and>
             (warn t1 \<longrightarrow> infra_test.exit_code t2 = 3) \<and>
             (\<not> warn t1 \<longrightarrow> infra_test.exit_code t2 = infra_test.exit_code t1) \<and>
             (\<not> warn t1 \<and> infra_test.exit_code t1 = infra_test.exit_code (InfraTest_init n d h f)
                \<longrightarrow> infra_test.exit_code t2 = 0) \<and>
             calls = [RunCalled (infra_test.name t)]) \<and>
         (let (ec1, rep, t2, calls) = Stage_execute_test ec m t
          in rep ''result'' = Some ''pass'' \<and>
             (warn t1 \<longrightarrow> ec1 = 3) \<and>
             (\<not> warn t1 \<longrightarrow> ec1 = ec)) \<and>
         (warn t1 \<longrightarrow>
            returned (Stage_execute (hp(r := \<lparr>cls = m, obj = t\<rparr>))
                        (s\<lparr>stage.infra_tests := [r]\<rparr>)) = 3) \<and>
         (\<not> warn t1 \<longrightarrow>
            returned (Stage_execute (hp(r := \<lparr>cls = m, obj = t\<rparr>))
                        (s\<lparr>stage.infra_tests := [r]\<rparr>)) = 0)"
  using assms
  by (simp add: InfraTest_execute_def Stage_execute_def Stage_execute_test_def InfraTest_init_def
        Let_def split: option.splits)

text \<open>A check that passes with a warning and a message, and one that passes without.\<close>

theorem warning_flag_gives_exit_code_three_witness:
  "(let (t2, calls) = InfraTest_execute (warns ''disk 80% full'') (new_test ''B'')
    in warn t2 \<and>
       infra_test.report t2 ''result'' = Some ''pass'' \<and>
       infra_test.exit_code t2 = 3 \<and>
       calls = [RunCalled ''B'']) \<and>
   returned (Stage_execute (heap_of [new_check (warns ''disk 80% full'') ''B''])
               (new_stage [0])) = 3 \<and>
   (let (t2, calls) = InfraTest_execute passes (new_test ''A'')
    in \<not> warn t2 \<and>
       infra_test.report t2 ''result'' = Some ''pass'' \<and>
       infra_test.exit_code t2 = 0 \<and>
       calls = [RunCalled ''A'']) \<and>
   returned (Stage_execute (heap_of [new_check passes ''A'']) (new_stage [0])) = 0"
proof -
  let ?w = "warns ''disk 80% full''"
  let ?b = "new_test ''B''"
  let ?a = "new_test ''A''"
  have warned: "run ?w ?b = (Inr True, ?b\<lparr>message := Some ''disk 80% full'', warn := True\<rparr>)"
    by (simp add: warns_def)
  have passed: "run passes ?a = (Inr True, ?a)"
    by (simp add: passes_def)
  have flags: "warn (?b\<lparr>message := Some ''disk 80% full'', warn := True\<rparr>)" "\<not> warn ?a"
    by (simp_all add: new_test_def InfraTest_init_def)
  have code: "infra_test.exit_code ?a = infra_test.exit_code (InfraTest_init n d h f)" for n d h f
    by (simp add: new_test_def InfraTest_init_def)
  have names: "infra_test.name ?a = ''A''" "infra_test.name ?b = ''B''"
    by (simp_all add: new_test_def InfraTest_init_def)
  have stages: "(new_stage [])\<lparr>stage.infra_tests := [0]\<rparr> = new_stage [0]"
    by (simp add: new_stage_def)
  have stores:
    "(heap_of [new_check ?w ''B''])(0 := \<lparr>cls = ?w, obj = ?b\<rparr>) = heap_of [new_check ?w ''B'']"
    "(heap_of [new_check passes ''A''])(0 := \<lparr>cls = passes, obj = ?a\<rparr>) =
       heap_of [new_check passes ''A'']"
    by (simp_all add: fun_eq_iff heap_of_def new_check_def)
  have after: "warn (fst (InfraTest_execute ?w ?b))" "\<not> warn (fst (InfraTest_execute passes ?a))"
    by (simp_all add: InfraTest_execute_def example_defs)
  show ?thesis
    using warning_flag_gives_exit_code_three
            [where ec = 0 and s = "new_stage []" and r = 0
               and hp = "heap_of [new_check ?w ''B'']", OF warned]
      warning_flag_gives_exit_code_three
            [where ec = 0 and s = "new_stage []" and r = 0
               and hp = "heap_of [new_check passes ''A'']", OF passed]
      flags code names stages stores after
    by (simp add: split_def Let_def)
qed

text \<open>
  C8. The \<open>result\<close> entry of the report of a check is \<open>fail\<close> after \<open>InfraTest.__init__\<close>, and is
  one of \<open>pass\<close>, \<open>fail\<close>, \<open>exec_fail\<close> in every state the object goes through in
  \<open>InfraTest.execute\<close>, for a check whose methods leave that entry alone. It stays \<open>fail\<close>
  until it takes its final value, which is \<open>pass\<close> exactly when \<open>run\<close> returned true and
  \<open>exec_fail\<close> exactly when \<open>run\<close> raised.
\<close>

theorem report_result_invariant:
  assumes "keeps_result (run m)" and "keeps_result (fail m)"
  shows "infra_test.report (InfraTest_init n d h f) ''result'' = Some ''fail'' \<and>
         (let t0 = InfraTest_init n d h f;
              states = InfraTest_execute_states m t0;
              final = fst (InfraTest_execute m t0)
          in hd states = t0 \<and> last states = final \<and>
             (\<forall>s \<in> set states.
                infra_test.report s ''result'' \<in> {Some ''pass'', Some ''fail'', Some ''exec_fail''} \<and>
                (infra_test.report s ''result'' = Some ''fail'' \<or>
                 infra_test.report s ''result'' = infra_test.report final ''result'')) \<and>
             (infra_test.report final ''result'' = Some ''pass'' \<longleftrightarrow> fst (run m t0) = Inr True) \<and>
             (infra_test.report final ''result'' = Some ''exec_fail'' \<longleftrightarrow>
                (\<exists>ex. fst (run m t0) = Inl ex)))"
proof -
  define t0 where "t0 = InfraTest_init n d h f"
  obtain r t1 where run: "run m t0 = (r, t1)"
    by (cases "run m t0")
  obtain q t2 where fail: "fail m (t1\<lparr>infra_test.exit_code := 1\<rparr>) = (q, t2)"
    by (cases "fail m (t1\<lparr>infra_test.exit_code := 1\<rparr>)")
  have t0: "infra_test.report t0 ''result'' = Some ''fail''"
    by (simp add: t0_def InfraTest_init_def)
  have t1: "infra_test.report t1 ''result'' = Some ''fail''"
    using assms(1) run t0 by (auto simp: keeps_result_def dest: spec [of _ t0])
  have t2: "infra_test.report t2 ''result'' = Some ''fail''"
    using assms(2) fail t1
    by (auto simp: keeps_result_def dest: spec [of _ "t1\<lparr>infra_test.exit_code := 1\<rparr>"])
  have "hd (InfraTest_execute_states m t0) = t0 \<and>
        last (InfraTest_execute_states m t0) = fst (InfraTest_execute m t0) \<and>
        (\<forall>s \<in> set (InfraTest_execute_states m t0).
           infra_test.report s ''result'' \<in> {Some ''pass'', Some ''fail'', Some ''exec_fail''} \<and>
           (infra_test.report s ''result'' = Some ''fail'' \<or>
            infra_test.report s ''result'' =
              infra_test.report (fst (InfraTest_execute m t0)) ''result'')) \<and>
        (infra_test.report (fst (InfraTest_execute m t0)) ''result'' = Some ''pass'' \<longleftrightarrow>
           fst (run m t0) = Inr True) \<and>
        (infra_test.report (fst (InfraTest_execute m t0)) ''result'' = Some ''exec_fail'' \<longleftrightarrow>
           (\<exists>ex. fst (run m t0) = Inl ex))"
  proof (cases r)
    case (Inl ex)
    with run t0 t1 show ?thesis
      by (simp add: InfraTest_execute_states_def InfraTest_execute_def Let_def
          split: option.splits)
  next
    case (Inr b)
    show ?thesis
    proof (cases b)
      case True
      with Inr run t0 t1 show ?thesis
        by (simp add: InfraTest_execute_states_def InfraTest_execute_def Let_def
            split: option.splits)
    next
      case False
      with Inr run fail t0 t1 t2 show ?thesis
        by (cases q)
          (simp_all add: InfraTest_execute_states_def InfraTest_execute_def Let_def
            split: option.splits)
    qed
  qed
  then show ?thesis
    using t0 by (simp add: t0_def Let_def)
qed

text \<open>The states of a check that passes with a warning and a message.\<close>

theorem report_result_invariant_witness:
  "keeps_result (run (warns ''disk 80% full'')) \<and>
   keeps_result (fail (warns ''disk 80% full'')) \<and>
   map (\<lambda>s. infra_test.report s ''result'')
     (InfraTest_execute_states (warns ''disk 80% full'')
        (InfraTest_init ''B'' ''a check'' ''node'' ''node.example.org'')) =
     [Some ''fail'', Some ''fail'', Some ''fail'', Some ''pass'', Some ''pass''] \<and>
   last (InfraTest_execute_states (warns ''disk 80% full'')
        (InfraTest_init ''B'' ''a check'' ''node'' ''node.example.org'')) =
     fst (InfraTest_execute (warns ''disk 80% full'')
        (InfraTest_init ''B'' ''a check'' ''node'' ''node.example.org'')) \<and>
   infra_test.report (fst (InfraTest_execute (warns ''disk 80% full'')
        (InfraTest_init ''B'' ''a check'' ''node'' ''node.example.org''))) ''result'' = Some ''pass''"
proof -
  let ?m = "warns ''disk 80% full''"
  have frame: "keeps_result (run ?m)" "keeps_result (fail ?m)"
    by (simp_all add: keeps_result_def warns_def)
  have states: "map (\<lambda>s. infra_test.report s ''result'')
     (InfraTest_execute_states ?m (InfraTest_init ''B'' ''a check'' ''node'' ''node.example.org'')) =
     [Some ''fail'', Some ''fail'', Some ''fail'', Some ''pass'', Some ''pass'']"
    by (simp add: InfraTest_execute_states_def warns_def InfraTest_init_def)
  have final: "infra_test.report (fst (InfraTest_execute ?m
        (InfraTest_init ''B'' ''a check'' ''node'' ''node.example.org''))) ''result'' = Some ''pass''"
    by (simp add: InfraTest_execute_def warns_def InfraTest_init_def)
  show ?thesis
    using report_result_invariant
            [where m = ?m and n = "''B''" and d = "''a check''" and h = "''node''"
               and f = "''node.example.org''", OF frame]
      frame states final
    by (simp add: Let_def)
qed

end
